theory Spec2Isabelle
  imports Main
begin

section \<open>C values shared by client.c and server.c\<close>

text \<open>
  A C string is modelled by the list of its characters before the terminating NUL.
  A \<open>char*\<close> that may be the null pointer is a \<open>string option\<close>: \<open>None\<close> is NULL.

  \<open>int\<close> is 32 bits wide and \<open>size_t\<close> 64 bits wide (LP64). Values of type \<open>int\<close> are
  HOL integers; the two conversions of the sources are written out.
\<close>

definition int_of_size_t :: "nat \<Rightarrow> int" where
  \<comment> \<open>\<open>size_t\<close> to \<open>int\<close>: reduction modulo \<open>2^32\<close> into the signed range\<close>
  "int_of_size_t n = (int n + 2147483648) mod 4294967296 - 2147483648"

definition size_t_of_int :: "int \<Rightarrow> nat" where
  \<comment> \<open>\<open>int\<close> to \<open>size_t\<close>: reduction modulo \<open>2^64\<close>\<close>
  "size_t_of_int i = nat (i mod 18446744073709551616)"

definition strlen :: "string \<Rightarrow> nat" where
  "strlen s = length s"

definition htons :: "int \<Rightarrow> nat" where
  \<comment> \<open>the argument is converted to \<open>uint16_t\<close>; the result is kept as the port number
      that the network-order value denotes\<close>
  "htons p = nat (p mod 65536)"

definition isspace :: "char \<Rightarrow> bool" where
  "isspace c = (of_char c \<in> {32, 9, 10, 11, 12, 13 :: nat})"

definition isdigit :: "char \<Rightarrow> bool" where
  "isdigit c = (48 \<le> (of_char c :: nat) \<and> (of_char c :: nat) \<le> 57)"

fun atoi_digits :: "int \<Rightarrow> string \<Rightarrow> int" where
  "atoi_digits acc [] = acc"
| "atoi_digits acc (c # cs) =
     (if isdigit c then atoi_digits (10 * acc + (of_char c - 48)) cs else acc)"

definition atoi :: "string \<Rightarrow> int" where
  \<comment> \<open>leading white space, an optional sign, then decimal digits up to the first
      other character; 0 when there is no digit. A value outside \<open>int\<close> is undefined
      in C and is not reduced here.\<close>
  "atoi s =
     (case dropWhile isspace s of
        [] \<Rightarrow> 0
      | c # cs \<Rightarrow>
          if c = CHR ''-'' then - atoi_digits 0 cs
          else if c = CHR ''+'' then atoi_digits 0 cs
          else atoi_digits 0 (c # cs))"

definition argv_at :: "string list \<Rightarrow> nat \<Rightarrow> string option" where
  \<comment> \<open>\<open>argv[i]\<close>: the list holds the \<open>argc\<close> supplied arguments; \<open>argv[argc]\<close> is
      the null pointer that ends the array and holds no string\<close>
  "argv_at argv i = (if i < length argv then Some (argv ! i) else None)"

section \<open>Calls, output and outcomes\<close>

text \<open>
  A run is described by its trace, the list of the calls of the socket interface and
  of the lines printed, in the order of the program, and by its outcome.
\<close>

datatype family = AF_INET

record sockaddr_in =
  sin_family :: family
  sin_addr :: nat
  sin_port :: nat

definition INADDR_ANY :: nat where
  "INADDR_ANY = 0"

datatype buffer =
    Addr_of_message      \<comment> \<open>\<open>&message\<close>: the address of the pointer variable\<close>
  | Addr_of_rx_buffer    \<comment> \<open>\<open>&rx_buffer\<close>\<close>
  | Echo_buffer          \<comment> \<open>\<open>echo_buffer\<close>\<close>

datatype syscall =
    Socket
  | Gethostbyname string
  | Connect int sockaddr_in
  | Send int buffer nat
  | Recv int buffer nat
  | Bind int sockaddr_in
  | Listen int int
  | Accept int
  | Close int

text \<open>
  One constructor for each \<open>printf\<close> and \<open>fprintf\<close> of the two files, with its
  arguments. \<open>Percent_s\<close> is the \<open>printf("%s")\<close> of the receive loop, which is given
  no argument.
\<close>

datatype line =
    Not_enough_arguments
  | Client_usage "string option"
  | Server_usage "string option"
  | Error_creating_socket
  | No_such_host
  | Connecting_to_server "string option" int
  | Error_connecting
  | Sending_message "string option"
  | Error_sending_message
  | Expected_to_send int int
  | Receiving_response
  | Error_receiving_message
  | Expected_to_read int int
  | Percent_s
  | Closing_quote
  | Invalid_port_number int
  | Starting_server "string option" int
  | Failed_to_start_server
  | Failed_to_accept
  | Connected_to_client int
  | Connection_closed
  | Failed_to_receive int
  | Failed_to_send
  | Error_opening_listening_socket
  | Error_on_binding
  | Error_listening

datatype event = Sys syscall | Out line | Err line

datatype outcome =
    Exit int       \<comment> \<open>\<open>main\<close> returned this status\<close>
  | Blocked        \<comment> \<open>the last system call of the trace has not returned\<close>
  | Undefined      \<comment> \<open>a null pointer was passed where a string is read\<close>

section \<open>server.c\<close>

text \<open>
  The operating system is given by the values its calls return: one field for each call
  made once, and for the accept loop the list \<open>loop_rets\<close> of the values returned by
  \<open>accept\<close>, \<open>recv\<close> and \<open>send\<close> in the order of the calls. A call made when the list is
  used up does not return. The peer port that \<open>accept\<close> stores and \<open>main\<close> prints is
  not modelled.
\<close>

record server_os =
  listening_socket_ret :: int
  bind_ret :: int
  listen_ret :: int
  close_ret :: int
  loop_rets :: "int list"

text \<open>\<open>start_server\<close>: the trace, the return value and \<open>*listening_sockfd_out\<close> when written.\<close>

definition start_server ::
    "server_os \<Rightarrow> string option \<Rightarrow> int \<Rightarrow> int \<Rightarrow> event list \<times> int \<times> int option" where
  "start_server os hostname port_number listen_backlog =
    (let server_sockfd = listening_socket_ret os in
     if server_sockfd < 0 then
       ([Sys Socket, Err Error_opening_listening_socket], 1, None)
     else
       let serv_addr = \<lparr>sin_family = AF_INET, sin_addr = INADDR_ANY,
                         sin_port = htons port_number\<rparr>;
           t_bind = [Sys Socket, Sys (Bind server_sockfd serv_addr)]
       in
       if bind_ret os < 0 then
         (t_bind @ [Err Error_on_binding], bind_ret os, None)
       else if 0 \<noteq> listen_ret os then
         (t_bind @ [Sys (Listen server_sockfd listen_backlog), Err Error_listening],
          listen_ret os, None)
       else
         (t_bind @ [Sys (Listen server_sockfd listen_backlog)], listen_ret os,
          Some server_sockfd))"

definition stop_server :: "server_os \<Rightarrow> int \<Rightarrow> event list \<times> int" where
  "stop_server os server_sockfd = ([Sys (Close server_sockfd)], close_ret os)"

text \<open>How the inner \<open>while (true)\<close> is left.\<close>

datatype echo_exit = Break | Goto_cleanup int | Echo_blocked

definition echo_buffer_len :: nat where
  "echo_buffer_len = 512"

text \<open>
  The echo loop of one accepted client: the trace, how the loop is left, and the
  return values not yet consumed.
\<close>

fun echo_loop :: "int \<Rightarrow> int list \<Rightarrow> event list \<times> echo_exit \<times> int list" where
  "echo_loop client_sockfd [] =
     ([Sys (Recv client_sockfd Echo_buffer echo_buffer_len)], Echo_blocked, [])"
| "echo_loop client_sockfd (chars_received # rets) =
     (if 0 = chars_received then
        ([Sys (Recv client_sockfd Echo_buffer echo_buffer_len), Out Connection_closed],
         Break, rets)
      else if chars_received < 0 then
        ([Sys (Recv client_sockfd Echo_buffer echo_buffer_len),
          Err (Failed_to_receive chars_received)],
         Goto_cleanup 1, rets)
      else
        (case rets of
           [] \<Rightarrow>
             ([Sys (Recv client_sockfd Echo_buffer echo_buffer_len),
               Sys (Send client_sockfd Echo_buffer (size_t_of_int chars_received))],
              Echo_blocked, [])
         | chars_sent # rets' \<Rightarrow>
             if chars_sent < 0 then
               ([Sys (Recv client_sockfd Echo_buffer echo_buffer_len),
                 Sys (Send client_sockfd Echo_buffer (size_t_of_int chars_received)),
                 Err Failed_to_send],
                Goto_cleanup 1, rets')
             else
               (case echo_loop client_sockfd rets' of
                  (t, r) \<Rightarrow>
                    (Sys (Recv client_sockfd Echo_buffer echo_buffer_len)
                     # Sys (Send client_sockfd Echo_buffer (size_t_of_int chars_received))
                     # t, r))))"

lemma echo_loop_rest_le: "length (snd (snd (echo_loop c rets))) \<le> length rets"
proof (induction c rets rule: echo_loop.induct)
  case (1 c)
  show ?case by simp
next
  case (2 c r rets)
  show ?case
  proof (cases rets)
    case Nil
    then show ?thesis by simp
  next
    case (Cons s rets')
    with 2 show ?thesis
      by (auto split: prod.splits)
  qed
qed

text \<open>
  The outer \<open>for (;;)\<close>: the trace and the value of \<open>ret\<close> at \<open>cleanup\<close>, or \<open>None\<close> when
  the server is waiting in a call that has not returned.
\<close>

function accept_loop :: "int \<Rightarrow> int list \<Rightarrow> event list \<times> int option" where
  "accept_loop server_sockfd [] = ([Sys (Accept server_sockfd)], None)"
| "accept_loop server_sockfd (client_sockfd # rets) =
     (if client_sockfd < 0 then
        ([Sys (Accept server_sockfd), Err Failed_to_accept], Some 1)
      else
        (case echo_loop client_sockfd rets of
           (t, Break, rets') \<Rightarrow>
             (case accept_loop server_sockfd rets' of
                (t', r) \<Rightarrow>
                  (Sys (Accept server_sockfd) # Out (Connected_to_client client_sockfd)
                   # t @ t', r))
         | (t, Goto_cleanup ret, rets') \<Rightarrow>
             (Sys (Accept server_sockfd) # Out (Connected_to_client client_sockfd) # t,
              Some ret)
         | (t, Echo_blocked, rets') \<Rightarrow>
             (Sys (Accept server_sockfd) # Out (Connected_to_client client_sockfd) # t,
              None)))"
  by pat_completeness auto
termination
  apply (relation "measure (\<lambda>(fd, rets). length rets)")
   apply simp
  subgoal premises p for server_sockfd client_sockfd rets x y xa ya
    using p echo_loop_rest_le [of client_sockfd rets]
    by (metis snd_conv le_imp_less_Suc length_Cons in_measure case_prod_conv)
  done

text \<open>
  \<open>main\<close> from the accept loop on: the loop, then \<open>cleanup\<close> with \<open>stop_server\<close> and the
  return of \<open>ret\<close>.
\<close>

definition serve :: "server_os \<Rightarrow> int \<Rightarrow> event list \<times> outcome" where
  "serve os server_sockfd =
     (case accept_loop server_sockfd (loop_rets os) of
        (t, None) \<Rightarrow> (t, Blocked)
      | (t, Some ret) \<Rightarrow> (t @ fst (stop_server os server_sockfd), Exit ret))"

record server_vars =
  srv_hostname :: "string option"
  srv_port_number :: int

function server_parse :: "string list \<Rightarrow> nat \<Rightarrow> server_vars \<Rightarrow> server_vars" where
  "server_parse argv idx v =
     (if idx < length argv then
        (if argv ! idx = ''--hostname'' then
           server_parse argv (idx + 2) (v\<lparr>srv_hostname := argv_at argv (idx + 1)\<rparr>)
         else
           server_parse argv (idx + 1) (v\<lparr>srv_port_number := atoi (argv ! idx)\<rparr>))
      else v)"
  by pat_completeness auto
termination
  by (relation "measure (\<lambda>(argv, idx, v). length argv - idx)") auto

definition server_main :: "server_os \<Rightarrow> string list \<Rightarrow> event list \<times> outcome" where
  "server_main os argv =
     (let progname = argv_at argv 0 in
      if length argv < 2 then
        ([Err Not_enough_arguments, Out (Server_usage progname)], Exit 1)
      else
        let v = server_parse argv 1 \<lparr>srv_hostname = Some ''localhost'', srv_port_number = - 1\<rparr>
        in
        if srv_port_number v \<le> 0 then
          ([Err (Invalid_port_number (srv_port_number v)), Out (Server_usage progname)],
           Exit 1)
        else
          (case start_server os (srv_hostname v) (srv_port_number v) 5 of
             (t, ret, fd_out) \<Rightarrow>
               if 0 \<noteq> ret then
                 (Out (Starting_server (srv_hostname v) (srv_port_number v))
                  # t @ [Err Failed_to_start_server], Exit 1)
               else
                 (case serve os (case fd_out of Some fd \<Rightarrow> fd | None \<Rightarrow> 0) of
                    (t', out) \<Rightarrow>
                      (Out (Starting_server (srv_hostname v) (srv_port_number v))
                       # t @ t', out))))"

section \<open>client.c\<close>

text \<open>
  The operating system of the client: the value returned by each call made once, the
  address found by \<open>gethostbyname\<close> (\<open>None\<close> is the null result), and the list
  \<open>recv_rets\<close> of the values returned by the calls of \<open>recv\<close>, in order. A \<open>recv\<close> made
  when the list is used up does not return.
\<close>

record client_os =
  socket_ret :: int
  gethostbyname_ret :: "string \<Rightarrow> nat option"
  connect_ret :: int
  send_ret :: int
  recv_rets :: "int list"

record client_vars =
  hostname :: "string option"
  port_number :: int
  message :: "string option"

function client_parse :: "string list \<Rightarrow> nat \<Rightarrow> client_vars \<Rightarrow> client_vars" where
  "client_parse argv idx v =
     (if idx < length argv then
        (if argv ! idx = ''--hostname'' then
           client_parse argv (idx + 2) (v\<lparr>hostname := argv_at argv (idx + 1)\<rparr>)
         else if argv ! idx = ''--message'' then
           client_parse argv (idx + 2) (v\<lparr>message := argv_at argv (idx + 1)\<rparr>)
         else
           client_parse argv (idx + 1) (v\<lparr>port_number := atoi (argv ! idx)\<rparr>))
      else v)"
  by pat_completeness auto
termination
  by (relation "measure (\<lambda>(argv, idx, v). length argv - idx)") auto

definition message_len_of :: "string \<Rightarrow> int" where
  \<comment> \<open>\<open>int message_len = strlen(message)\<close>\<close>
  "message_len_of m = int_of_size_t (strlen m)"

definition chars_request :: "int \<Rightarrow> nat \<Rightarrow> int \<Rightarrow> int" where
  \<comment> \<open>the count asked of \<open>recv\<close>; the comparison is made in \<open>size_t\<close>\<close>
  "chars_request message_len rx_buffer_len total_received =
     (let chars_remaining = message_len - total_received in
      if size_t_of_int chars_remaining > rx_buffer_len then int_of_size_t rx_buffer_len
      else chars_remaining)"

text \<open>How the receive loop is left.\<close>

datatype loop_exit = Loop_done int | Return int | Recv_blocked

fun receive_loop ::
    "int \<Rightarrow> int \<Rightarrow> nat \<Rightarrow> int \<Rightarrow> int list \<Rightarrow> event list \<times> loop_exit" where
  "receive_loop sockfd message_len rx_buffer_len total_received [] =
     (if total_received < message_len then
        ([Sys (Recv sockfd Addr_of_rx_buffer
                 (size_t_of_int (chars_request message_len rx_buffer_len total_received)))],
         Recv_blocked)
      else ([], Loop_done total_received))"
| "receive_loop sockfd message_len rx_buffer_len total_received (chars_received # rets) =
     (if total_received < message_len then
        (if chars_received < 0 then
           ([Sys (Recv sockfd Addr_of_rx_buffer
                    (size_t_of_int (chars_request message_len rx_buffer_len total_received))),
             Err Error_receiving_message],
            Return 1)
         else if chars_received \<noteq> chars_request message_len rx_buffer_len total_received
         then
           ([Sys (Recv sockfd Addr_of_rx_buffer
                    (size_t_of_int (chars_request message_len rx_buffer_len total_received))),
             Err (Expected_to_read
                    (chars_request message_len rx_buffer_len total_received) chars_received)],
            Return 1)
         else
           (case receive_loop sockfd message_len rx_buffer_len
                   (total_received + chars_received) rets of
              (t, r) \<Rightarrow>
                (Sys (Recv sockfd Addr_of_rx_buffer
                        (size_t_of_int
                           (chars_request message_len rx_buffer_len total_received)))
                 # Out Percent_s # t, r)))
      else ([], Loop_done total_received))"

text \<open>\<open>main\<close> of the client after the arguments are parsed, up to the \<open>connect\<close>.\<close>

definition connect_trace :: "client_os \<Rightarrow> client_vars \<Rightarrow> string \<Rightarrow> nat \<Rightarrow> event list" where
  "connect_trace os v h h_addr =
     [Sys Socket, Sys (Gethostbyname h),
      Out (Connecting_to_server (hostname v) (port_number v)),
      Sys (Connect (socket_ret os)
             \<lparr>sin_family = AF_INET, sin_addr = h_addr, sin_port = htons (port_number v)\<rparr>)]"

definition client_run :: "client_os \<Rightarrow> client_vars \<Rightarrow> event list \<times> outcome" where
  "client_run os v =
     (let sockfd = socket_ret os in
      if sockfd < 0 then ([Sys Socket, Err Error_creating_socket], Exit 1)
      else
        (case hostname v of
           None \<Rightarrow> ([Sys Socket], Undefined)
         | Some h \<Rightarrow>
             (case gethostbyname_ret os h of
                None \<Rightarrow> ([Sys Socket, Sys (Gethostbyname h), Err No_such_host], Exit 1)
              | Some h_addr \<Rightarrow>
                  if connect_ret os < 0 then
                    (connect_trace os v h h_addr @ [Err Error_connecting], Exit 1)
                  else
                    (case message v of
                       None \<Rightarrow>
                         (connect_trace os v h h_addr @ [Out (Sending_message None)],
                          Undefined)
                     | Some m \<Rightarrow>
                         let message_len = message_len_of m;
                             t_send = connect_trace os v h h_addr
                               @ [Out (Sending_message (Some m)),
                                  Sys (Send sockfd Addr_of_message
                                         (size_t_of_int message_len))];
                             chars_sent = send_ret os
                         in
                         if chars_sent < 0 then
                           (t_send @ [Err Error_sending_message], Exit 1)
                         else if chars_sent \<noteq> message_len then
                           (t_send @ [Err (Expected_to_send message_len chars_sent)],
                            Exit 1)
                         else
                           (case receive_loop sockfd message_len
                                   (size_t_of_int message_len) 0 (recv_rets os) of
                              (t, Return r) \<Rightarrow>
                                (t_send @ Out Receiving_response # t, Exit r)
                            | (t, Recv_blocked) \<Rightarrow>
                                (t_send @ Out Receiving_response # t, Blocked)
                            | (t, Loop_done total_received) \<Rightarrow>
                                (t_send @ Out Receiving_response # t @ [Out Closing_quote],
                                 Exit 0))))))"

definition client_main :: "client_os \<Rightarrow> string list \<Rightarrow> event list \<times> outcome" where
  "client_main os argv =
     (let progname = argv_at argv 0 in
      if length argv < 2 then
        ([Err Not_enough_arguments, Out (Client_usage progname)], Exit 1)
      else
        client_run os
          (client_parse argv 1
             \<lparr>hostname = Some ''localhost'', port_number = - 1,
              message = Some ''hello world''\<rparr>))"

text \<open>
  What \<open>send(sockfd, &message, message_len, 0)\<close> transmits: the \<open>message_len\<close> bytes of
  memory that start at the address of the variable \<open>message\<close>. These are the bytes of
  the pointer stored in the variable, followed by the memory behind it.
\<close>

record stack =
  message_ptr_bytes :: "char list"
  following_bytes :: "char list"

definition bytes_at_addr_of_message :: "stack \<Rightarrow> nat \<Rightarrow> char list" where
  "bytes_at_addr_of_message st len = take len (message_ptr_bytes st @ following_bytes st)"

section \<open>Notions used in the statements\<close>

fun is_recv :: "event \<Rightarrow> bool" where
  "is_recv (Sys (Recv fd buf len)) = True"
| "is_recv e = False"

text \<open>
  Every flag among the arguments \<open>args\<close> that the parser visits as a flag is followed
  by a value.
\<close>

fun flags_have_values :: "string list \<Rightarrow> string list \<Rightarrow> bool" where
  "flags_have_values flags [] = True"
| "flags_have_values flags (a # rest) =
     (if a \<in> set flags then
        (case rest of [] \<Rightarrow> False | b # rest' \<Rightarrow> flags_have_values flags rest')
      else flags_have_values flags rest)"

text \<open>
  Return values of an echo loop that runs whole iterations: each \<open>recv\<close> returns a
  positive count and each \<open>send\<close> a count that is not negative. \<open>echoed\<close> is the trace
  of these iterations.
\<close>

fun complete_exchanges :: "int list \<Rightarrow> bool" where
  "complete_exchanges [] = True"
| "complete_exchanges [r] = False"
| "complete_exchanges (r # s # rets) = (0 < r \<and> 0 \<le> s \<and> complete_exchanges rets)"

fun echoed :: "int \<Rightarrow> int list \<Rightarrow> event list" where
  "echoed c (r # s # rets) =
     Sys (Recv c Echo_buffer echo_buffer_len) # Sys (Send c Echo_buffer (size_t_of_int r))
     # echoed c rets"
| "echoed c rets = []"

subsection \<open>Concrete runs\<close>

text \<open>
  An operating system of the server: the listening socket is 3, \<open>bind\<close>, \<open>listen\<close> and
  \<open>close\<close> return 0; the return values of the accept loop are set in each example.
\<close>

definition os_example :: server_os where
  "os_example = \<lparr>listening_socket_ret = 3, bind_ret = 0, listen_ret = 0, close_ret = 0,
                  loop_rets = []\<rparr>"

text \<open>
  An operating system of the client: the socket is 3, \<open>localhost\<close> is resolved to
  127.0.0.1, \<open>connect\<close> succeeds, \<open>send\<close> returns 11 and the one \<open>recv\<close> returns 11.
\<close>

definition client_os_example :: client_os where
  "client_os_example =
     \<lparr>socket_ret = 3,
      gethostbyname_ret = (\<lambda>h. if h = ''localhost'' then Some 2130706433 else None),
      connect_ret = 0, send_ret = 11, recv_rets = [11]\<rparr>"

text \<open>
  A stack of the client, on a machine with 8-byte little-endian pointers: the
  variable \<open>message\<close> holds the address \<open>0x7FFD4F2B183C\<close> of \<open>argv[4]\<close>, and the
  variable \<open>hostname\<close> behind it holds \<open>0x7FFD4F2B182D\<close>.
\<close>

definition stack_example :: stack where
  "stack_example =
     \<lparr>message_ptr_bytes =
        [CHR 0x3C, CHR 0x18, CHR 0x2B, CHR 0x4F, CHR 0xFD, CHR 0x7F, CHR 0x00, CHR 0x00],
      following_bytes =
        [CHR 0x2D, CHR 0x18, CHR 0x2B, CHR 0x4F, CHR 0xFD, CHR 0x7F, CHR 0x00, CHR 0x00]\<rparr>"

declare client_parse.simps [simp del]
declare server_parse.simps [simp del]
declare accept_loop.simps [simp del]

section \<open>The echo loop and the accept loop\<close>

lemma echo_loop_exchanges:
  "complete_exchanges pre \<Longrightarrow>
   echo_loop c (pre @ rets) = (echoed c pre @ fst (echo_loop c rets), snd (echo_loop c rets))"
proof (induction pre rule: complete_exchanges.induct)
  case 1
  show ?case by simp
next
  case (2 r)
  then show ?case by simp
next
  case (3 r s rets')
  then show ?case by (simp split: prod.splits)
qed

lemma accept_loop_nonempty: "fst (accept_loop fd rets) \<noteq> []"
  by (cases rets) (simp_all add: accept_loop.simps split: prod.splits echo_exit.splits)

lemma accept_loop_hd: "hd (fst (accept_loop fd rets)) = Sys (Accept fd)"
  by (cases rets) (simp_all add: accept_loop.simps split: prod.splits echo_exit.splits)

lemma accept_loop_break:
  assumes "0 \<le> c" "complete_exchanges pre"
  shows "accept_loop fd (c # pre @ 0 # rest) =
     (Sys (Accept fd) # Out (Connected_to_client c) # echoed c pre
        @ [Sys (Recv c Echo_buffer echo_buffer_len), Out Connection_closed]
        @ fst (accept_loop fd rest),
      snd (accept_loop fd rest))"
  using assms by (simp add: accept_loop.simps echo_loop_exchanges split: prod.splits)

lemma accept_loop_negative:
  assumes "0 \<le> c" "complete_exchanges pre" "r < 0"
  shows "accept_loop fd (c # pre @ r # rest) =
     (Sys (Accept fd) # Out (Connected_to_client c) # echoed c pre
        @ [Sys (Recv c Echo_buffer echo_buffer_len), Err (Failed_to_receive r)],
      Some 1)"
  using assms by (simp add: accept_loop.simps echo_loop_exchanges split: prod.splits)

text \<open>
  C4. In the echo loop of any accepted client \<open>c\<close>, after any number of whole
  iterations \<open>pre\<close>: when \<open>recv\<close> returns 0 the loop is left normally and the server
  goes on as the accept loop does on the remaining return values, starting with
  \<open>accept\<close> on the same listening socket, which has not been closed; when \<open>recv\<close>
  returns a negative value the next and last call is the \<open>close\<close> of the listening
  socket and the process exits with status 1. In both cases no \<open>send\<close> or \<open>recv\<close> on
  \<open>c\<close> follows.
\<close>

theorem zero_read_returns_to_accept_negative_read_exits:
  assumes "0 \<le> c" and "complete_exchanges pre"
  shows "serve (os\<lparr>loop_rets := c # pre @ 0 # rest\<rparr>) fd =
           (Sys (Accept fd) # Out (Connected_to_client c) # echoed c pre
              @ [Sys (Recv c Echo_buffer echo_buffer_len), Out Connection_closed]
              @ fst (serve (os\<lparr>loop_rets := rest\<rparr>) fd),
            snd (serve (os\<lparr>loop_rets := rest\<rparr>) fd))
         \<and> hd (fst (serve (os\<lparr>loop_rets := rest\<rparr>) fd)) = Sys (Accept fd)
         \<and> (r < 0 \<longrightarrow>
              serve (os\<lparr>loop_rets := c # pre @ r # rest\<rparr>) fd =
                (Sys (Accept fd) # Out (Connected_to_client c) # echoed c pre
                   @ [Sys (Recv c Echo_buffer echo_buffer_len), Err (Failed_to_receive r),
                      Sys (Close fd)],
                 Exit 1))"
proof (intro conjI impI)
  show "serve (os\<lparr>loop_rets := c # pre @ 0 # rest\<rparr>) fd =
           (Sys (Accept fd) # Out (Connected_to_client c) # echoed c pre
              @ [Sys (Recv c Echo_buffer echo_buffer_len), Out Connection_closed]
              @ fst (serve (os\<lparr>loop_rets := rest\<rparr>) fd),
            snd (serve (os\<lparr>loop_rets := rest\<rparr>) fd))"
    using assms
    by (simp add: serve_def accept_loop_break stop_server_def split: prod.splits option.splits)
next
  have "hd (fst (accept_loop fd rest)) = Sys (Accept fd)"
    by (rule accept_loop_hd)
  moreover have "fst (accept_loop fd rest) \<noteq> []"
    by (rule accept_loop_nonempty)
  ultimately show "hd (fst (serve (os\<lparr>loop_rets := rest\<rparr>) fd)) = Sys (Accept fd)"
    by (auto simp: serve_def stop_server_def split: prod.splits option.splits)
next
  assume "r < 0"
  with assms show "serve (os\<lparr>loop_rets := c # pre @ r # rest\<rparr>) fd =
                (Sys (Accept fd) # Out (Connected_to_client c) # echoed c pre
                   @ [Sys (Recv c Echo_buffer echo_buffer_len), Err (Failed_to_receive r),
                      Sys (Close fd)],
                 Exit 1)"
    by (simp add: serve_def accept_loop_negative stop_server_def)
qed

theorem zero_read_returns_to_accept_negative_read_exits_witness:
  "(0::int) \<le> 4 \<and> complete_exchanges [5, 5]
   \<and> serve (os_example\<lparr>loop_rets := [4, 5, 5, 0, 6]\<rparr>) 3 =
       ([Sys (Accept 3), Out (Connected_to_client 4),
         Sys (Recv 4 Echo_buffer 512), Sys (Send 4 Echo_buffer 5),
         Sys (Recv 4 Echo_buffer 512), Out Connection_closed,
         Sys (Accept 3), Out (Connected_to_client 6), Sys (Recv 6 Echo_buffer 512)],
        Blocked)
   \<and> (- 1 :: int) < 0
   \<and> serve (os_example\<lparr>loop_rets := [4, 5, 5, - 1, 6]\<rparr>) 3 =
       ([Sys (Accept 3), Out (Connected_to_client 4),
         Sys (Recv 4 Echo_buffer 512), Sys (Send 4 Echo_buffer 5),
         Sys (Recv 4 Echo_buffer 512), Err (Failed_to_receive (- 1)), Sys (Close 3)],
        Exit 1)"
  using zero_read_returns_to_accept_negative_read_exits
          [where c = 4 and pre = "[5, 5]" and os = os_example and rest = "[6]"
             and fd = 3 and r = "- 1"]
  by (simp add: serve_def accept_loop.simps echo_buffer_len_def size_t_of_int_def)

section \<open>The listening socket\<close>

lemma echo_loop_no_close: "Sys (Close x) \<notin> set (fst (echo_loop c rets))"
proof (induction c rets rule: echo_loop.induct)
  case (1 c)
  show ?case by simp
next
  case (2 c r rets)
  then show ?case
    by (cases rets) (auto split: prod.splits)
qed

lemma accept_loop_no_close: "Sys (Close x) \<notin> set (fst (accept_loop fd rets))"
proof (induction fd rets rule: accept_loop.induct)
  case (1 fd)
  show ?case by (simp add: accept_loop.simps)
next
  case (2 fd c rets)
  show ?case
  proof (cases "c < 0")
    case True
    then show ?thesis by (simp add: accept_loop.simps)
  next
    case False
    obtain t e rets' where el: "echo_loop c rets = (t, e, rets')"
      by (cases "echo_loop c rets") auto
    have t: "Sys (Close x) \<notin> set t"
      using echo_loop_no_close [of x c rets] el by simp
    show ?thesis
    proof (cases e)
      case Break
      have "Sys (Close x) \<notin> set (fst (accept_loop fd rets'))"
        using "2.IH" False el Break by simp
      with False el t Break show ?thesis
        by (auto simp: accept_loop.simps split: prod.splits)
    next
      case (Goto_cleanup ret)
      with False el t show ?thesis by (simp add: accept_loop.simps)
    next
      case Echo_blocked
      with False el t show ?thesis by (simp add: accept_loop.simps)
    qed
  qed
qed

lemma start_server_no_close: "Sys (Close x) \<notin> set (fst (start_server os h p b))"
  by (simp add: start_server_def Let_def)

lemma start_server_no_accept: "Sys (Accept x) \<notin> set (fst (start_server os h p b))"
  by (simp add: start_server_def Let_def)

lemma start_server_fd:
  "start_server os h p b = (t, 0, fd_out) \<Longrightarrow> fd_out = Some (listening_socket_ret os)"
  by (auto simp: start_server_def Let_def split: if_splits)

lemma count_list_absent: "x \<notin> set xs \<Longrightarrow> count_list xs x = 0"
  by (simp add: count_list_0_iff)

lemma serve_close:
  "serve os fd = (tr, out) \<Longrightarrow>
     (case out of
        Exit ret \<Rightarrow> count_list tr (Sys (Close fd)) = 1 \<and> last tr = Sys (Close fd)
      | Blocked \<Rightarrow> count_list tr (Sys (Close fd)) = 0
      | Undefined \<Rightarrow> False)"
  using accept_loop_no_close [of fd fd "loop_rets os"]
  by (auto simp: serve_def stop_server_def count_list_absent
      split: prod.splits option.splits)

lemma serve_accept: "Sys (Accept fd) \<in> set (fst (serve os fd))"
proof -
  have "hd (fst (accept_loop fd (loop_rets os))) \<in> set (fst (accept_loop fd (loop_rets os)))"
    using accept_loop_nonempty by (rule hd_in_set)
  then have "Sys (Accept fd) \<in> set (fst (accept_loop fd (loop_rets os)))"
    by (simp add: accept_loop_hd)
  then show ?thesis
    by (auto simp: serve_def split: prod.splits option.splits)
qed

text \<open>
  C8. \<open>start_server\<close> does the same for any two host names; when the socket was
  created, its second call is \<open>bind\<close> on that socket with the address \<open>INADDR_ANY\<close> and
  the port \<open>htons(port_number)\<close>, and no \<open>bind\<close> with another address or port is made; for
  a port from 1 to 65535 that port is the given one.
\<close>

theorem start_server_binds_wildcard_for_any_hostname:
  "start_server os h1 port backlog = start_server os h2 port backlog
   \<and> (0 \<le> listening_socket_ret os \<longrightarrow>
        fst (start_server os h1 port backlog) ! 1 =
          Sys (Bind (listening_socket_ret os)
                 \<lparr>sin_family = AF_INET, sin_addr = INADDR_ANY,
                  sin_port = htons port\<rparr>))
   \<and> (\<forall>fd a. Sys (Bind fd a) \<in> set (fst (start_server os h1 port backlog))
          \<longrightarrow> sin_addr a = INADDR_ANY \<and> sin_port a = htons port)
   \<and> (0 < port \<and> port \<le> 65535 \<longrightarrow> int (htons port) = port)"
  by (auto simp: start_server_def Let_def htons_def)

theorem start_server_binds_wildcard_for_any_hostname_witness:
  "start_server os_example (Some ''localhost'') 9000 5
     = start_server os_example (Some ''192.168.1.7'') 9000 5
   \<and> (0::int) \<le> listening_socket_ret os_example
   \<and> fst (start_server os_example (Some ''localhost'') 9000 5) ! 1 =
        Sys (Bind 3 \<lparr>sin_family = AF_INET, sin_addr = INADDR_ANY, sin_port = 9000\<rparr>)
   \<and> Sys (Bind 3 \<lparr>sin_family = AF_INET, sin_addr = INADDR_ANY, sin_port = 9000\<rparr>)
        \<in> set (fst (start_server os_example (Some ''localhost'') 9000 5))
   \<and> (0::int) < 9000 \<and> (9000::int) \<le> 65535 \<and> int (htons 9000) = 9000"
  using start_server_binds_wildcard_for_any_hostname
          [where os = os_example and ?h1.0 = "Some ''localhost''"
             and ?h2.0 = "Some ''192.168.1.7''" and port = 9000 and backlog = 5]
  by (simp add: start_server_def os_example_def htons_def Let_def)

text \<open>
  C2, evaluated. The server is started with the port 9000; a client is accepted as
  socket 4, \<open>recv\<close> returns 5 and the following \<open>send\<close> returns 3. The server reports
  nothing and does not exit: it calls \<open>recv\<close> again, and after the client has closed
  it waits in \<open>accept\<close>.
\<close>

theorem server_continues_after_short_send:
  "server_main (os_example\<lparr>loop_rets := [4, 5, 3, 0]\<rparr>) [''server'', ''9000''] =
     ([Out (Starting_server (Some ''localhost'') 9000), Sys Socket,
       Sys (Bind 3 \<lparr>sin_family = AF_INET, sin_addr = INADDR_ANY, sin_port = 9000\<rparr>),
       Sys (Listen 3 5), Sys (Accept 3), Out (Connected_to_client 4),
       Sys (Recv 4 Echo_buffer 512), Sys (Send 4 Echo_buffer 5),
       Sys (Recv 4 Echo_buffer 512), Out Connection_closed, Sys (Accept 3)],
      Blocked)"
  by (simp add: server_main_def server_parse.simps argv_at_def atoi_def isspace_def
      isdigit_def start_server_def htons_def os_example_def serve_def accept_loop.simps
      echo_buffer_len_def size_t_of_int_def Let_def)

section \<open>The receive loop of the client\<close>

lemma int_of_size_t_small: "n < 2147483648 \<Longrightarrow> int_of_size_t n = int n"
  by (simp add: int_of_size_t_def)

lemma int_of_size_t_range: "- 2147483648 \<le> int_of_size_t n \<and> int_of_size_t n < 2147483648"
proof -
  have "0 \<le> (int n + 2147483648) mod 4294967296"
    and "(int n + 2147483648) mod 4294967296 < 4294967296"
    by simp_all
  then show ?thesis by (simp add: int_of_size_t_def)
qed

lemma message_len_of_less: "message_len_of m < 2147483648"
  using int_of_size_t_range [of "strlen m"] by (simp add: message_len_of_def)

lemma size_t_of_int_small: "0 \<le> i \<Longrightarrow> i < 2147483648 \<Longrightarrow> size_t_of_int i = nat i"
  by (simp add: size_t_of_int_def)

lemma chars_request_min:
  assumes "0 \<le> received" "received < ml" "ml < 2147483648"
  shows "chars_request ml cap received = min (ml - received) (int cap)"
proof -
  have rem: "size_t_of_int (ml - received) = nat (ml - received)"
    using assms by (simp add: size_t_of_int_small)
  show ?thesis
  proof (cases "cap < nat (ml - received)")
    case True
    then have "cap < 2147483648" using assms by linarith
    then have "int_of_size_t cap = int cap" by (rule int_of_size_t_small)
    moreover have "int cap < ml - received" using True by linarith
    ultimately show ?thesis using True rem by (simp add: chars_request_def Let_def min_def)
  next
    case False
    then have "ml - received \<le> int cap" by linarith
    with False rem show ?thesis by (simp add: chars_request_def Let_def min_def)
  qed
qed

lemma chars_request_whole:
  assumes "0 \<le> received" "received < ml" "ml < 2147483648"
  shows "chars_request ml (size_t_of_int ml) received = ml - received"
  using assms by (simp add: chars_request_min size_t_of_int_small)

lemma receive_loop_done_total:
  "0 \<le> received \<Longrightarrow> received \<le> ml \<Longrightarrow> ml < 2147483648 \<Longrightarrow>
   receive_loop fd ml cap received rets = (t, Loop_done received') \<Longrightarrow> received' = ml"
proof (induction rets arbitrary: received t)
  case Nil
  then show ?case by (auto split: if_splits)
next
  case (Cons x rets)
  show ?case
  proof (cases "received < ml")
    case False
    with Cons.prems show ?thesis by auto
  next
    case True
    then have req: "chars_request ml cap received = min (ml - received) (int cap)"
      using Cons.prems by (simp add: chars_request_min)
    from Cons.prems True have x: "x = chars_request ml cap received" "\<not> x < 0"
      by (auto split: if_splits)
    obtain t2 where "receive_loop fd ml cap (received + x) rets = (t2, Loop_done received')"
      using Cons.prems True x by (auto split: if_splits prod.splits)
    moreover have "0 \<le> received + x" "received + x \<le> ml"
      using x req Cons.prems by auto
    ultimately show ?thesis
      using Cons.IH Cons.prems by blast
  qed
qed

text \<open>
  C7. In any iteration of the client's receive loop, that is with
  \<open>0 \<le> received < message_len\<close> and the buffer length of \<open>main\<close>: the count asked of
  \<open>recv\<close> is \<open>min(remaining, rx_buffer_len)\<close> and is positive; when \<open>recv\<close> returns that
  count the loop goes on with a remaining count that is strictly smaller and not
  negative, and otherwise it returns 1; and the loop is left normally only with
  \<open>total_received = message_len\<close>.
\<close>

theorem receive_loop_requests_min_with_decreasing_remaining:
  fixes m :: string
  assumes ml: "message_len_of m = ml" and cap: "size_t_of_int ml = cap"
    and rcv: "0 \<le> received" "received < ml"
  shows "0 < min (ml - received) (int cap)
    \<and> receive_loop fd ml cap received (x # rets) =
        (if x < 0 then
           ([Sys (Recv fd Addr_of_rx_buffer (nat (min (ml - received) (int cap)))),
             Err Error_receiving_message], Return 1)
         else if x \<noteq> min (ml - received) (int cap) then
           ([Sys (Recv fd Addr_of_rx_buffer (nat (min (ml - received) (int cap)))),
             Err (Expected_to_read (min (ml - received) (int cap)) x)], Return 1)
         else
           (Sys (Recv fd Addr_of_rx_buffer (nat (min (ml - received) (int cap))))
            # Out Percent_s # fst (receive_loop fd ml cap (received + x) rets),
            snd (receive_loop fd ml cap (received + x) rets)))
    \<and> (x = min (ml - received) (int cap) \<longrightarrow>
          ml - (received + x) < ml - received \<and> 0 \<le> ml - (received + x))
    \<and> (\<forall>t received'. receive_loop fd ml cap received (x # rets) = (t, Loop_done received')
          \<longrightarrow> received' = ml)"
proof -
  have lt: "ml < 2147483648" using ml [symmetric] message_len_of_less by simp
  have req: "chars_request ml cap received = min (ml - received) (int cap)"
    using rcv lt by (simp add: chars_request_min)
  have capv: "int cap = ml"
    using cap [symmetric] rcv lt by (simp add: size_t_of_int_small)
  have pos: "0 < min (ml - received) (int cap)" using rcv capv by simp
  have conv: "size_t_of_int (min (ml - received) (int cap)) = nat (min (ml - received) (int cap))"
    using rcv lt capv by (simp add: size_t_of_int_small)
  have eq: "receive_loop fd ml cap received (x # rets) =
        (if x < 0 then
           ([Sys (Recv fd Addr_of_rx_buffer (nat (min (ml - received) (int cap)))),
             Err Error_receiving_message], Return 1)
         else if x \<noteq> min (ml - received) (int cap) then
           ([Sys (Recv fd Addr_of_rx_buffer (nat (min (ml - received) (int cap)))),
             Err (Expected_to_read (min (ml - received) (int cap)) x)], Return 1)
         else
           (Sys (Recv fd Addr_of_rx_buffer (nat (min (ml - received) (int cap))))
            # Out Percent_s # fst (receive_loop fd ml cap (received + x) rets),
            snd (receive_loop fd ml cap (received + x) rets)))"
    using rcv by (simp add: req conv split: prod.splits)
  have dec: "x = min (ml - received) (int cap) \<longrightarrow>
          ml - (received + x) < ml - received \<and> 0 \<le> ml - (received + x)"
    using pos by auto
  have fin: "\<forall>t received'. receive_loop fd ml cap received (x # rets) = (t, Loop_done received')
          \<longrightarrow> received' = ml"
    using receive_loop_done_total [of received ml fd cap "x # rets"] rcv lt by auto
  from pos eq dec fin show ?thesis by blast
qed

theorem receive_loop_requests_min_with_decreasing_remaining_witness:
  "message_len_of ''hello world'' = 11 \<and> size_t_of_int 11 = 11
   \<and> (0::int) \<le> 0 \<and> (0::int) < 11
   \<and> receive_loop 3 11 11 0 [11] =
       ([Sys (Recv 3 Addr_of_rx_buffer 11), Out Percent_s], Loop_done 11)
   \<and> (11::int) - (0 + 11) < 11 - 0"
proof -
  have ml: "message_len_of ''hello world'' = 11"
    by (simp add: message_len_of_def strlen_def int_of_size_t_def)
  have cap: "size_t_of_int 11 = 11"
    by (simp add: size_t_of_int_def)
  have r: "(0::int) \<le> 0" "(0::int) < 11" by simp_all
  have loop: "receive_loop 3 11 11 11 [] = ([], Loop_done 11)"
    by simp
  note w = receive_loop_requests_min_with_decreasing_remaining
      [OF ml cap r, where x = 11 and rets = "[]" and fd = 3]
  have "receive_loop 3 11 11 0 [11] =
       ([Sys (Recv 3 Addr_of_rx_buffer 11), Out Percent_s], Loop_done 11)"
    by (subst w [THEN conjunct2, THEN conjunct1]) (simp add: loop)
  with ml cap show ?thesis by simp
qed

section \<open>Runs of the client\<close>

lemma receive_loop_first:
  assumes "0 < ml" "ml < 2147483648"
  shows "receive_loop fd ml (size_t_of_int ml) 0 rets =
     (case rets of
        [] \<Rightarrow> ([Sys (Recv fd Addr_of_rx_buffer (nat ml))], Recv_blocked)
      | x # rets' \<Rightarrow>
          if x < 0 then
            ([Sys (Recv fd Addr_of_rx_buffer (nat ml)), Err Error_receiving_message], Return 1)
          else if x \<noteq> ml then
            ([Sys (Recv fd Addr_of_rx_buffer (nat ml)), Err (Expected_to_read ml x)], Return 1)
          else ([Sys (Recv fd Addr_of_rx_buffer (nat ml)), Out Percent_s], Loop_done ml))"
proof -
  have req: "chars_request ml (size_t_of_int ml) 0 = ml"
    using chars_request_whole [of 0 ml] assms by simp
  have conv: "size_t_of_int ml = nat ml"
    using assms by (simp add: size_t_of_int_small)
  have req': "chars_request ml (nat ml) 0 = ml"
    using req conv by simp
  show ?thesis
  proof (cases rets)
    case Nil
    with assms show ?thesis by (simp add: conv req')
  next
    case (Cons x rets')
    have "receive_loop fd ml (nat ml) ml rets' = ([], Loop_done ml)"
      by (cases rets') simp_all
    with Cons assms show ?thesis by (simp add: conv req')
  qed
qed

lemma message_len_of_length: "length m < 2147483648 \<Longrightarrow> message_len_of m = int (length m)"
  by (simp add: message_len_of_def strlen_def int_of_size_t_small)

text \<open>
  C10. With the buffer length of \<open>main\<close>, every iteration of the receive loop asks
  for the whole remaining count; and a run of the client that returns 0 for a message
  that is not empty (and whose length fits \<open>int\<close>) has made exactly one call of
  \<open>recv\<close>, for the length of the message.
\<close>

theorem successful_run_makes_one_recv_call:
  assumes run: "client_run os v = (tr, Exit 0)"
    and msg: "message v = Some m" and ne: "m \<noteq> []" and len: "length m < 2147483648"
  shows "length (filter is_recv tr) = 1
    \<and> Sys (Recv (socket_ret os) Addr_of_rx_buffer (length m)) \<in> set tr
    \<and> (\<forall>received. 0 \<le> received \<and> received < message_len_of m \<longrightarrow>
          chars_request (message_len_of m) (size_t_of_int (message_len_of m)) received
            = message_len_of m - received)"
proof -
  have ml: "message_len_of m = int (length m)"
    using len by (rule message_len_of_length)
  have pos: "0 < message_len_of m" "message_len_of m < 2147483648"
    using ne len ml by simp_all
  have whole: "\<forall>received. 0 \<le> received \<and> received < message_len_of m \<longrightarrow>
          chars_request (message_len_of m) (size_t_of_int (message_len_of m)) received
            = message_len_of m - received"
    using pos by (simp add: chars_request_whole)
  note first = receive_loop_first [OF pos, of "socket_ret os" "recv_rets os"]
  from run msg obtain h a where
    h: "hostname v = Some h" "gethostbyname_ret os h = Some a"
    by (auto simp: client_run_def Let_def split: if_splits option.splits)
  have tr: "tr = connect_trace os v h a
      @ [Out (Sending_message (Some m)),
         Sys (Send (socket_ret os) Addr_of_message (size_t_of_int (message_len_of m))),
         Out Receiving_response,
         Sys (Recv (socket_ret os) Addr_of_rx_buffer (nat (message_len_of m))),
         Out Percent_s, Out Closing_quote]"
    using run msg h
    by (auto simp: client_run_def Let_def first
        split: if_splits option.splits list.splits prod.splits loop_exit.splits)
  have "length (filter is_recv tr) = 1"
    by (simp add: tr connect_trace_def)
  moreover have "Sys (Recv (socket_ret os) Addr_of_rx_buffer (length m)) \<in> set tr"
    by (simp add: tr ml)
  ultimately show ?thesis using whole by blast
qed

theorem successful_run_makes_one_recv_call_witness:
  "client_run client_os_example
      \<lparr>hostname = Some ''localhost'', port_number = 9000, message = Some ''hello world''\<rparr>
     = ([Sys Socket, Sys (Gethostbyname ''localhost''),
         Out (Connecting_to_server (Some ''localhost'') 9000),
         Sys (Connect 3 \<lparr>sin_family = AF_INET, sin_addr = 2130706433, sin_port = 9000\<rparr>),
         Out (Sending_message (Some ''hello world'')),
         Sys (Send 3 Addr_of_message 11), Out Receiving_response,
         Sys (Recv 3 Addr_of_rx_buffer 11), Out Percent_s, Out Closing_quote],
        Exit 0)
   \<and> ''hello world'' \<noteq> [] \<and> length ''hello world'' < 2147483648
   \<and> length (filter is_recv
        [Sys Socket, Sys (Gethostbyname ''localhost''),
         Out (Connecting_to_server (Some ''localhost'') 9000),
         Sys (Connect 3 \<lparr>sin_family = AF_INET, sin_addr = 2130706433, sin_port = 9000\<rparr>),
         Out (Sending_message (Some ''hello world'')),
         Sys (Send 3 Addr_of_message 11), Out Receiving_response,
         Sys (Recv 3 Addr_of_rx_buffer 11), Out Percent_s, Out Closing_quote]) = 1"
proof -
  have run: "client_run client_os_example
      \<lparr>hostname = Some ''localhost'', port_number = 9000, message = Some ''hello world''\<rparr>
     = ([Sys Socket, Sys (Gethostbyname ''localhost''),
         Out (Connecting_to_server (Some ''localhost'') 9000),
         Sys (Connect 3 \<lparr>sin_family = AF_INET, sin_addr = 2130706433, sin_port = 9000\<rparr>),
         Out (Sending_message (Some ''hello world'')),
         Sys (Send 3 Addr_of_message 11), Out Receiving_response,
         Sys (Recv 3 Addr_of_rx_buffer 11), Out Percent_s, Out Closing_quote],
        Exit 0)"
    by (simp add: client_run_def client_os_example_def connect_trace_def htons_def
        message_len_of_def strlen_def int_of_size_t_def size_t_of_int_def chars_request_def
        Let_def)
  have msg: "message \<lparr>hostname = Some ''localhost'', port_number = 9000,
      message = Some ''hello world''\<rparr> = Some ''hello world''"
    by simp
  have ne: "''hello world'' \<noteq> []" by simp
  have len: "length ''hello world'' < 2147483648" by simp
  note w = successful_run_makes_one_recv_call [OF run msg ne len]
  from run ne len w [THEN conjunct1] show ?thesis by (intro conjI)
qed

text \<open>
  C6. When the message is empty and the calls up to \<open>send\<close> succeed, with \<open>send\<close>
  returning 0: \<open>message_len\<close> is 0, the receive loop makes no iteration and ends with
  \<open>total_received = 0\<close>, no \<open>recv\<close> is called and \<open>main\<close> returns 0.
\<close>

theorem empty_message_needs_no_recv:
  assumes "0 \<le> socket_ret os" and "hostname v = Some h"
    and "gethostbyname_ret os h = Some a" and "0 \<le> connect_ret os"
    and "message v = Some []" and "send_ret os = 0"
  shows "message_len_of [] = 0
    \<and> receive_loop (socket_ret os) (message_len_of []) (size_t_of_int (message_len_of []))
          0 (recv_rets os) = ([], Loop_done 0)
    \<and> client_run os v =
        (connect_trace os v h a
           @ [Out (Sending_message (Some [])),
              Sys (Send (socket_ret os) Addr_of_message 0),
              Out Receiving_response, Out Closing_quote],
         Exit 0)"
proof -
  have ml: "message_len_of [] = 0"
    by (simp add: message_len_of_def strlen_def int_of_size_t_def)
  have loop: "receive_loop (socket_ret os) 0 (size_t_of_int 0) 0 (recv_rets os)
      = ([], Loop_done 0)"
    by (cases "recv_rets os") simp_all
  have "client_run os v =
        (connect_trace os v h a
           @ [Out (Sending_message (Some [])),
              Sys (Send (socket_ret os) Addr_of_message 0),
              Out Receiving_response, Out Closing_quote],
         Exit 0)"
    using assms by (simp add: client_run_def Let_def ml loop) (simp add: size_t_of_int_def)
  with ml loop show ?thesis by simp
qed

theorem empty_message_needs_no_recv_witness:
  "(0::int) \<le> socket_ret (client_os_example\<lparr>send_ret := 0\<rparr>)
   \<and> gethostbyname_ret (client_os_example\<lparr>send_ret := 0\<rparr>) ''localhost''
        = Some 2130706433
   \<and> (0::int) \<le> connect_ret (client_os_example\<lparr>send_ret := 0\<rparr>)
   \<and> send_ret (client_os_example\<lparr>send_ret := 0\<rparr>) = 0
   \<and> client_run (client_os_example\<lparr>send_ret := 0\<rparr>)
        \<lparr>hostname = Some ''localhost'', port_number = 9000, message = Some []\<rparr>
     = ([Sys Socket, Sys (Gethostbyname ''localhost''),
         Out (Connecting_to_server (Some ''localhost'') 9000),
         Sys (Connect 3 \<lparr>sin_family = AF_INET, sin_addr = 2130706433, sin_port = 9000\<rparr>),
         Out (Sending_message (Some [])),
         Sys (Send 3 Addr_of_message 0), Out Receiving_response, Out Closing_quote],
        Exit 0)"
proof -
  have a: "(0::int) \<le> socket_ret (client_os_example\<lparr>send_ret := 0\<rparr>)"
    and b: "hostname \<lparr>hostname = Some ''localhost'', port_number = 9000,
        message = Some []\<rparr> = Some ''localhost''"
    and c: "gethostbyname_ret (client_os_example\<lparr>send_ret := 0\<rparr>) ''localhost''
        = Some 2130706433"
    and d: "(0::int) \<le> connect_ret (client_os_example\<lparr>send_ret := 0\<rparr>)"
    and e: "message \<lparr>hostname = Some ''localhost'', port_number = 9000,
        message = Some []\<rparr> = Some []"
    and f: "send_ret (client_os_example\<lparr>send_ret := 0\<rparr>) = 0"
    by (simp_all add: client_os_example_def)
  note w = empty_message_needs_no_recv [OF a b c d e f]
  have "client_run (client_os_example\<lparr>send_ret := 0\<rparr>)
        \<lparr>hostname = Some ''localhost'', port_number = 9000, message = Some []\<rparr>
     = ([Sys Socket, Sys (Gethostbyname ''localhost''),
         Out (Connecting_to_server (Some ''localhost'') 9000),
         Sys (Connect 3 \<lparr>sin_family = AF_INET, sin_addr = 2130706433, sin_port = 9000\<rparr>),
         Out (Sending_message (Some [])),
         Sys (Send 3 Addr_of_message 0), Out Receiving_response, Out Closing_quote],
        Exit 0)"
    by (subst w [THEN conjunct2, THEN conjunct2])
      (simp add: connect_trace_def client_os_example_def htons_def)
  with a c d f show ?thesis by (intro conjI)
qed

text \<open>
  C5. In a run of the client that has connected: when \<open>send\<close> returns a count that is
  not negative and differs from \<open>message_len\<close>, the run ends with the report of the
  expected and the actual count and the status 1, and the \<open>send\<close> is its last call. In
  any iteration of the receive loop, when \<open>recv\<close> returns a count that is not negative
  and differs from the count asked for, the loop ends with the report of both counts
  and \<open>return 1\<close>, whatever further values \<open>recv\<close> would return; in \<open>main\<close> this is the
  end of the run, with that \<open>recv\<close> as the last call.
\<close>

theorem short_transfer_is_fatal_and_not_retried:
  assumes "0 \<le> socket_ret os" and "hostname v = Some h"
    and "gethostbyname_ret os h = Some a" and "0 \<le> connect_ret os"
    and "message v = Some m"
  shows "(0 \<le> send_ret os \<and> send_ret os \<noteq> message_len_of m \<longrightarrow>
           client_run os v =
             (connect_trace os v h a
                @ [Out (Sending_message (Some m)),
                   Sys (Send (socket_ret os) Addr_of_message
                          (size_t_of_int (message_len_of m))),
                   Err (Expected_to_send (message_len_of m) (send_ret os))],
              Exit 1))
    \<and> (received < ml \<and> 0 \<le> x \<and> x \<noteq> chars_request ml cap received \<longrightarrow>
           receive_loop fd ml cap received (x # rets) =
             ([Sys (Recv fd Addr_of_rx_buffer
                      (size_t_of_int (chars_request ml cap received))),
               Err (Expected_to_read (chars_request ml cap received) x)],
              Return 1))
    \<and> (send_ret os = message_len_of m \<and> 0 < message_len_of m
         \<and> recv_rets os = x # rets \<and> 0 \<le> x \<and> x \<noteq> message_len_of m \<longrightarrow>
           client_run os v =
             (connect_trace os v h a
                @ [Out (Sending_message (Some m)),
                   Sys (Send (socket_ret os) Addr_of_message
                          (size_t_of_int (message_len_of m))),
                   Out Receiving_response,
                   Sys (Recv (socket_ret os) Addr_of_rx_buffer (nat (message_len_of m))),
                   Err (Expected_to_read (message_len_of m) x)],
              Exit 1))"
proof (intro conjI impI)
  assume "0 \<le> send_ret os \<and> send_ret os \<noteq> message_len_of m"
  with assms show "client_run os v =
             (connect_trace os v h a
                @ [Out (Sending_message (Some m)),
                   Sys (Send (socket_ret os) Addr_of_message
                          (size_t_of_int (message_len_of m))),
                   Err (Expected_to_send (message_len_of m) (send_ret os))],
              Exit 1)"
    by (simp add: client_run_def Let_def)
next
  assume "received < ml \<and> 0 \<le> x \<and> x \<noteq> chars_request ml cap received"
  then show "receive_loop fd ml cap received (x # rets) =
             ([Sys (Recv fd Addr_of_rx_buffer
                      (size_t_of_int (chars_request ml cap received))),
               Err (Expected_to_read (chars_request ml cap received) x)],
              Return 1)"
    by simp
next
  assume a: "send_ret os = message_len_of m \<and> 0 < message_len_of m
         \<and> recv_rets os = x # rets \<and> 0 \<le> x \<and> x \<noteq> message_len_of m"
  then have pos: "0 < message_len_of m" by simp
  have loop: "receive_loop (socket_ret os) (message_len_of m)
        (size_t_of_int (message_len_of m)) 0 (recv_rets os) =
      ([Sys (Recv (socket_ret os) Addr_of_rx_buffer (nat (message_len_of m))),
        Err (Expected_to_read (message_len_of m) x)], Return 1)"
    by (subst receive_loop_first [OF pos message_len_of_less]) (use a in simp)
  from a have sent: "send_ret os = message_len_of m" by simp
  from assms pos sent show "client_run os v =
             (connect_trace os v h a
                @ [Out (Sending_message (Some m)),
                   Sys (Send (socket_ret os) Addr_of_message
                          (size_t_of_int (message_len_of m))),
                   Out Receiving_response,
                   Sys (Recv (socket_ret os) Addr_of_rx_buffer (nat (message_len_of m))),
                   Err (Expected_to_read (message_len_of m) x)],
              Exit 1)"
    by (simp add: client_run_def Let_def loop)
qed

theorem short_transfer_is_fatal_and_not_retried_witness:
  "(0::int) \<le> send_ret (client_os_example\<lparr>send_ret := 7\<rparr>)
   \<and> send_ret (client_os_example\<lparr>send_ret := 7\<rparr>) \<noteq> message_len_of ''hello world''
   \<and> client_run (client_os_example\<lparr>send_ret := 7\<rparr>)
        \<lparr>hostname = Some ''localhost'', port_number = 9000, message = Some ''hello world''\<rparr>
     = ([Sys Socket, Sys (Gethostbyname ''localhost''),
         Out (Connecting_to_server (Some ''localhost'') 9000),
         Sys (Connect 3 \<lparr>sin_family = AF_INET, sin_addr = 2130706433, sin_port = 9000\<rparr>),
         Out (Sending_message (Some ''hello world'')),
         Sys (Send 3 Addr_of_message 11), Err (Expected_to_send 11 7)],
        Exit 1)
   \<and> recv_rets (client_os_example\<lparr>recv_rets := [5, 6]\<rparr>) = [5, 6]
   \<and> (5::int) \<noteq> message_len_of ''hello world''
   \<and> client_run (client_os_example\<lparr>recv_rets := [5, 6]\<rparr>)
        \<lparr>hostname = Some ''localhost'', port_number = 9000, message = Some ''hello world''\<rparr>
     = ([Sys Socket, Sys (Gethostbyname ''localhost''),
         Out (Connecting_to_server (Some ''localhost'') 9000),
         Sys (Connect 3 \<lparr>sin_family = AF_INET, sin_addr = 2130706433, sin_port = 9000\<rparr>),
         Out (Sending_message (Some ''hello world'')),
         Sys (Send 3 Addr_of_message 11), Out Receiving_response,
         Sys (Recv 3 Addr_of_rx_buffer 11), Err (Expected_to_read 11 5)],
        Exit 1)"
proof -
  have ml: "message_len_of ''hello world'' = 11"
    by (simp add: message_len_of_def strlen_def int_of_size_t_def)
  have h: "hostname \<lparr>hostname = Some ''localhost'', port_number = 9000, message = Some ''hello world''\<rparr> = Some ''localhost''"
    and m: "message \<lparr>hostname = Some ''localhost'', port_number = 9000, message = Some ''hello world''\<rparr> = Some ''hello world''"
    by simp_all
  have a1: "(0::int) \<le> socket_ret (client_os_example\<lparr>send_ret := 7\<rparr>)"
    and c1: "gethostbyname_ret (client_os_example\<lparr>send_ret := 7\<rparr>) ''localhost''
        = Some 2130706433"
    and d1: "(0::int) \<le> connect_ret (client_os_example\<lparr>send_ret := 7\<rparr>)"
    and p1: "(0::int) \<le> send_ret (client_os_example\<lparr>send_ret := 7\<rparr>)
        \<and> send_ret (client_os_example\<lparr>send_ret := 7\<rparr>) \<noteq> message_len_of ''hello world''"
    by (simp_all add: client_os_example_def ml)
  have a2: "(0::int) \<le> socket_ret (client_os_example\<lparr>recv_rets := [5, 6]\<rparr>)"
    and c2: "gethostbyname_ret (client_os_example\<lparr>recv_rets := [5, 6]\<rparr>) ''localhost''
        = Some 2130706433"
    and d2: "(0::int) \<le> connect_ret (client_os_example\<lparr>recv_rets := [5, 6]\<rparr>)"
    and p2: "send_ret (client_os_example\<lparr>recv_rets := [5, 6]\<rparr>)
          = message_len_of ''hello world''
        \<and> 0 < message_len_of ''hello world''
        \<and> recv_rets (client_os_example\<lparr>recv_rets := [5, 6]\<rparr>) = [5, 6]
        \<and> (0::int) \<le> 5 \<and> 5 \<noteq> message_len_of ''hello world''"
    by (simp_all add: client_os_example_def ml)
  note w1 = short_transfer_is_fatal_and_not_retried
      [OF a1 h c1 d1 m, THEN conjunct1, THEN mp, OF p1]
  note w2 = short_transfer_is_fatal_and_not_retried
      [OF a2 h c2 d2 m, THEN conjunct2, THEN conjunct2, THEN mp, OF p2]
  have r1: "client_run (client_os_example\<lparr>send_ret := 7\<rparr>)
        \<lparr>hostname = Some ''localhost'', port_number = 9000, message = Some ''hello world''\<rparr>
     = ([Sys Socket, Sys (Gethostbyname ''localhost''),
         Out (Connecting_to_server (Some ''localhost'') 9000),
         Sys (Connect 3 \<lparr>sin_family = AF_INET, sin_addr = 2130706433, sin_port = 9000\<rparr>),
         Out (Sending_message (Some ''hello world'')),
         Sys (Send 3 Addr_of_message 11), Err (Expected_to_send 11 7)],
        Exit 1)"
    by (subst w1)
      (simp add: connect_trace_def client_os_example_def htons_def ml size_t_of_int_def)
  have r2: "client_run (client_os_example\<lparr>recv_rets := [5, 6]\<rparr>)
        \<lparr>hostname = Some ''localhost'', port_number = 9000, message = Some ''hello world''\<rparr>
     = ([Sys Socket, Sys (Gethostbyname ''localhost''),
         Out (Connecting_to_server (Some ''localhost'') 9000),
         Sys (Connect 3 \<lparr>sin_family = AF_INET, sin_addr = 2130706433, sin_port = 9000\<rparr>),
         Out (Sending_message (Some ''hello world'')),
         Sys (Send 3 Addr_of_message 11), Out Receiving_response,
         Sys (Recv 3 Addr_of_rx_buffer 11), Err (Expected_to_read 11 5)],
        Exit 1)"
    by (subst w2)
      (simp add: connect_trace_def client_os_example_def htons_def ml size_t_of_int_def)
  from p1 p2 r1 r2 show ?thesis by (intro conjI) simp_all
qed

section \<open>The argument parsers\<close>

lemma client_parse_past_end: "length argv \<le> idx \<Longrightarrow> client_parse argv idx v = v"
  by (subst client_parse.simps) simp

lemma server_parse_past_end: "length argv \<le> idx \<Longrightarrow> server_parse argv idx v = v"
  by (subst server_parse.simps) simp

lemma client_parse_values:
  "hostname v \<noteq> None \<Longrightarrow> message v \<noteq> None \<Longrightarrow>
   (hostname (client_parse argv idx v) \<noteq> None \<and> message (client_parse argv idx v) \<noteq> None)
     = flags_have_values [''--hostname'', ''--message''] (drop idx argv)"
proof (induction argv idx v rule: client_parse.induct)
  case (1 argv idx v)
  show ?case
  proof (cases "idx < length argv")
    case False
    with 1 show ?thesis by (simp add: client_parse_past_end)
  next
    case True
    then have d: "drop idx argv = argv ! idx # drop (Suc idx) argv"
      by (simp add: Cons_nth_drop_Suc)
    show ?thesis
    proof (cases "argv ! idx = ''--hostname'' \<or> argv ! idx = ''--message''")
      case False
      then have nh: "argv ! idx \<noteq> ''--hostname''" and nm: "argv ! idx \<noteq> ''--message''"
        by simp_all
      have step: "client_parse argv idx v =
          client_parse argv (idx + 1) (v\<lparr>port_number := atoi (argv ! idx)\<rparr>)"
        using True nh nm by (subst client_parse.simps) simp
      show ?thesis
        using "1.IH"(3) [OF True nh nm] "1.prems" d nh nm by (simp add: step)
    next
      case flag: True
      show ?thesis
      proof (cases "Suc idx < length argv")
        case False
        with True have e: "drop (Suc idx) argv = []" and n: "argv_at argv (idx + 1) = None"
          by (simp_all add: argv_at_def)
        from False have past: "length argv \<le> idx + 2" by simp
        from flag show ?thesis
        proof
          assume h: "argv ! idx = ''--hostname''"
          have "client_parse argv idx v = v\<lparr>hostname := None\<rparr>"
            using True h n client_parse_past_end [OF past]
            by (subst client_parse.simps) simp
          with h d e show ?thesis by simp
        next
          assume m: "argv ! idx = ''--message''"
          have "client_parse argv idx v = v\<lparr>message := None\<rparr>"
            using True m n client_parse_past_end [OF past]
            by (subst client_parse.simps) simp
          with m d e show ?thesis by simp
        qed
      next
        case s: True
        then have d2: "drop (Suc idx) argv = argv ! Suc idx # drop (Suc (Suc idx)) argv"
          by (simp add: Cons_nth_drop_Suc)
        from s have val: "argv_at argv (idx + 1) = Some (argv ! Suc idx)"
          by (simp add: argv_at_def)
        from flag show ?thesis
        proof
          assume h: "argv ! idx = ''--hostname''"
          have step: "client_parse argv idx v =
              client_parse argv (idx + 2) (v\<lparr>hostname := argv_at argv (idx + 1)\<rparr>)"
            using True h by (subst client_parse.simps) simp
          show ?thesis
            using "1.IH"(1) [OF True h] "1.prems" d d2 h val by (simp add: step)
        next
          assume m: "argv ! idx = ''--message''"
          then have nh: "argv ! idx \<noteq> ''--hostname''" by simp
          have step: "client_parse argv idx v =
              client_parse argv (idx + 2) (v\<lparr>message := argv_at argv (idx + 1)\<rparr>)"
            using True m by (subst client_parse.simps) simp
          show ?thesis
            using "1.IH"(2) [OF True nh m] "1.prems" d d2 m val by (simp add: step)
        qed
      qed
    qed
  qed
qed

lemma server_parse_values:
  "srv_hostname v \<noteq> None \<Longrightarrow>
   (srv_hostname (server_parse argv idx v) \<noteq> None)
     = flags_have_values [''--hostname''] (drop idx argv)"
proof (induction argv idx v rule: server_parse.induct)
  case (1 argv idx v)
  show ?case
  proof (cases "idx < length argv")
    case False
    with 1 show ?thesis by (simp add: server_parse_past_end)
  next
    case True
    then have d: "drop idx argv = argv ! idx # drop (Suc idx) argv"
      by (simp add: Cons_nth_drop_Suc)
    show ?thesis
    proof (cases "argv ! idx = ''--hostname''")
      case nh: False
      have step: "server_parse argv idx v =
          server_parse argv (idx + 1) (v\<lparr>srv_port_number := atoi (argv ! idx)\<rparr>)"
        using True nh by (subst server_parse.simps) simp
      show ?thesis
        using "1.IH"(2) [OF True nh] "1.prems" d nh by (simp add: step)
    next
      case h: True
      show ?thesis
      proof (cases "Suc idx < length argv")
        case False
        with True have e: "drop (Suc idx) argv = []" and n: "argv_at argv (idx + 1) = None"
          by (simp_all add: argv_at_def)
        from False have past: "length argv \<le> idx + 2" by simp
        have "server_parse argv idx v = v\<lparr>srv_hostname := None\<rparr>"
          using True h n server_parse_past_end [OF past]
          by (subst server_parse.simps) simp
        with h d e show ?thesis by simp
      next
        case s: True
        then have d2: "drop (Suc idx) argv = argv ! Suc idx # drop (Suc (Suc idx)) argv"
          by (simp add: Cons_nth_drop_Suc)
        from s have val: "argv_at argv (idx + 1) = Some (argv ! Suc idx)"
          by (simp add: argv_at_def)
        have step: "server_parse argv idx v =
            server_parse argv (idx + 2) (v\<lparr>srv_hostname := argv_at argv (idx + 1)\<rparr>)"
          using True h by (subst server_parse.simps) simp
        show ?thesis
          using "1.IH"(1) [OF True h] "1.prems" d d2 h val by (simp add: step)
      qed
    qed
  qed
qed

text \<open>
  C9. When the loop of the parser is at the last argument (\<open>idx + 1 = argc\<close>) and
  that argument is \<open>--hostname\<close> (client and server) or \<open>--message\<close> (client), the
  parser reads \<open>argv[argc]\<close>: the index is not below the number of supplied arguments,
  the read yields no string, and the variable is left without a value. Started with
  values for its variables, the parser ends with values for them exactly when every
  flag it visits is followed by an argument.
\<close>

theorem flag_as_last_argument_reads_argv_at_argc:
  assumes last: "idx + 1 = length argv"
  shows "\<not> idx + 1 < length argv \<and> argv_at argv (idx + 1) = None
    \<and> (argv ! idx = ''--hostname'' \<longrightarrow>
          client_parse argv idx v = v\<lparr>hostname := argv_at argv (length argv)\<rparr>
          \<and> hostname (client_parse argv idx v) = None)
    \<and> (argv ! idx = ''--message'' \<longrightarrow>
          client_parse argv idx v = v\<lparr>message := argv_at argv (length argv)\<rparr>
          \<and> message (client_parse argv idx v) = None)
    \<and> (argv ! idx = ''--hostname'' \<longrightarrow>
          server_parse argv idx sv = sv\<lparr>srv_hostname := argv_at argv (length argv)\<rparr>
          \<and> srv_hostname (server_parse argv idx sv) = None)
    \<and> (hostname v \<noteq> None \<and> message v \<noteq> None \<longrightarrow>
          (hostname (client_parse argv j v) \<noteq> None
             \<and> message (client_parse argv j v) \<noteq> None)
            = flags_have_values [''--hostname'', ''--message''] (drop j argv))
    \<and> (srv_hostname sv \<noteq> None \<longrightarrow>
          (srv_hostname (server_parse argv j sv) \<noteq> None)
            = flags_have_values [''--hostname''] (drop j argv))"
proof -
  have lt: "idx < length argv" and past: "length argv \<le> idx + 2"
    using last by simp_all
  have none: "argv_at argv (idx + 1) = None" "argv_at argv (length argv) = None"
    using last by (simp_all add: argv_at_def)
  have ch: "argv ! idx = ''--hostname'' \<longrightarrow>
      client_parse argv idx v = v\<lparr>hostname := argv_at argv (length argv)\<rparr>
      \<and> hostname (client_parse argv idx v) = None"
  proof
    assume h: "argv ! idx = ''--hostname''"
    have "client_parse argv idx v = v\<lparr>hostname := None\<rparr>"
      using lt h none client_parse_past_end [OF past]
      by (subst client_parse.simps) simp
    with none show "client_parse argv idx v = v\<lparr>hostname := argv_at argv (length argv)\<rparr>
      \<and> hostname (client_parse argv idx v) = None" by simp
  qed
  have cm: "argv ! idx = ''--message'' \<longrightarrow>
      client_parse argv idx v = v\<lparr>message := argv_at argv (length argv)\<rparr>
      \<and> message (client_parse argv idx v) = None"
  proof
    assume m: "argv ! idx = ''--message''"
    have "client_parse argv idx v = v\<lparr>message := None\<rparr>"
      using lt m none client_parse_past_end [OF past]
      by (subst client_parse.simps) simp
    with none show "client_parse argv idx v = v\<lparr>message := argv_at argv (length argv)\<rparr>
      \<and> message (client_parse argv idx v) = None" by simp
  qed
  have sh: "argv ! idx = ''--hostname'' \<longrightarrow>
      server_parse argv idx sv = sv\<lparr>srv_hostname := argv_at argv (length argv)\<rparr>
      \<and> srv_hostname (server_parse argv idx sv) = None"
  proof
    assume h: "argv ! idx = ''--hostname''"
    have "server_parse argv idx sv = sv\<lparr>srv_hostname := None\<rparr>"
      using lt h none server_parse_past_end [OF past]
      by (subst server_parse.simps) simp
    with none show "server_parse argv idx sv = sv\<lparr>srv_hostname := argv_at argv (length argv)\<rparr>
      \<and> srv_hostname (server_parse argv idx sv) = None" by simp
  qed
  have cv: "hostname v \<noteq> None \<and> message v \<noteq> None \<longrightarrow>
          (hostname (client_parse argv j v) \<noteq> None
             \<and> message (client_parse argv j v) \<noteq> None)
            = flags_have_values [''--hostname'', ''--message''] (drop j argv)"
    using client_parse_values [of v argv j] by blast
  have sv: "srv_hostname sv \<noteq> None \<longrightarrow>
          (srv_hostname (server_parse argv j sv) \<noteq> None)
            = flags_have_values [''--hostname''] (drop j argv)"
    using server_parse_values [of sv argv j] by blast
  from last none ch cm sh cv sv show ?thesis by simp
qed

theorem flag_as_last_argument_reads_argv_at_argc_witness:
  "(2::nat) + 1 = length [''client'', ''9000'', ''--message'']
   \<and> [''client'', ''9000'', ''--message''] ! 2 = ''--message''
   \<and> argv_at [''client'', ''9000'', ''--message''] 3 = None
   \<and> client_parse [''client'', ''9000'', ''--message''] 2
        \<lparr>hostname = Some ''localhost'', port_number = - 1, message = Some ''hello world''\<rparr>
       = \<lparr>hostname = Some ''localhost'', port_number = - 1, message = Some ''hello world''\<rparr>\<lparr>message := None\<rparr>
   \<and> client_main client_os_example [''client'', ''9000'', ''--message''] =
       ([Sys Socket, Sys (Gethostbyname ''localhost''),
         Out (Connecting_to_server (Some ''localhost'') 9000),
         Sys (Connect 3 \<lparr>sin_family = AF_INET, sin_addr = 2130706433, sin_port = 9000\<rparr>),
         Out (Sending_message None)],
        Undefined)"
proof -
  have l: "(2::nat) + 1 = length [''client'', ''9000'', ''--message'']" by simp
  have f: "[''client'', ''9000'', ''--message''] ! 2 = ''--message''" by simp
  have n: "argv_at [''client'', ''9000'', ''--message''] 3 = None"
    by (simp add: argv_at_def)
  note w = flag_as_last_argument_reads_argv_at_argc
      [OF l, THEN conjunct2, THEN conjunct2, THEN conjunct2, THEN conjunct1, THEN mp,
       OF f, THEN conjunct1]
  have p: "client_parse [''client'', ''9000'', ''--message''] 2
        \<lparr>hostname = Some ''localhost'', port_number = - 1, message = Some ''hello world''\<rparr>
       = \<lparr>hostname = Some ''localhost'', port_number = - 1, message = Some ''hello world''\<rparr>\<lparr>message := None\<rparr>"
    by (subst w) (simp add: argv_at_def)
  have r: "client_main client_os_example [''client'', ''9000'', ''--message''] =
       ([Sys Socket, Sys (Gethostbyname ''localhost''),
         Out (Connecting_to_server (Some ''localhost'') 9000),
         Sys (Connect 3 \<lparr>sin_family = AF_INET, sin_addr = 2130706433, sin_port = 9000\<rparr>),
         Out (Sending_message None)],
        Undefined)"
    by (simp add: client_main_def client_parse.simps argv_at_def atoi_def isspace_def
        isdigit_def client_run_def client_os_example_def connect_trace_def htons_def
        Let_def)
  from l f n p r show ?thesis by (intro conjI)
qed

section \<open>What the client sends\<close>

text \<open>
  C1, evaluated. The client is run with \<open>--hostname localhost --message "hello world" 9000\<close>
  and every call succeeds. The buffer passed to \<open>send\<close> is \<open>&message\<close> with the length
  11: the 11 bytes transmitted are the 8 bytes of the pointer and 3 bytes of the
  memory behind it, not the characters of the message. The run returns 0 after one
  \<open>recv\<close> of 11 bytes whose content it does not compare with the message.
\<close>

theorem client_sends_bytes_of_the_pointer:
  "client_main client_os_example
      [''client'', ''--hostname'', ''localhost'', ''--message'', ''hello world'', ''9000'']
     = ([Sys Socket, Sys (Gethostbyname ''localhost''),
         Out (Connecting_to_server (Some ''localhost'') 9000),
         Sys (Connect 3 \<lparr>sin_family = AF_INET, sin_addr = 2130706433, sin_port = 9000\<rparr>),
         Out (Sending_message (Some ''hello world'')),
         Sys (Send 3 Addr_of_message 11), Out Receiving_response,
         Sys (Recv 3 Addr_of_rx_buffer 11), Out Percent_s, Out Closing_quote],
        Exit 0)
   \<and> bytes_at_addr_of_message stack_example 11 =
        [CHR 0x3C, CHR 0x18, CHR 0x2B, CHR 0x4F, CHR 0xFD, CHR 0x7F, CHR 0x00, CHR 0x00,
         CHR 0x2D, CHR 0x18, CHR 0x2B]
   \<and> bytes_at_addr_of_message stack_example 11 \<noteq> ''hello world''"
  by (simp add: client_main_def client_parse.simps argv_at_def atoi_def isspace_def
      isdigit_def client_run_def client_os_example_def connect_trace_def htons_def
      message_len_of_def strlen_def int_of_size_t_def size_t_of_int_def chars_request_def
      bytes_at_addr_of_message_def stack_example_def Let_def)

section \<open>Closing of sockets\<close>

lemma echo_loop_cleanup_1: "echo_loop c rets = (t, Goto_cleanup r, rest) \<Longrightarrow> r = 1"
proof (induction c rets arbitrary: t rule: echo_loop.induct)
  case (1 c)
  then show ?case by simp
next
  case (2 c x rets)
  then show ?case
    by (cases rets) (auto split: if_splits prod.splits)
qed

lemma accept_loop_ret_1: "accept_loop fd rets = (t, Some r) \<Longrightarrow> r = 1"
proof (induction fd rets arbitrary: t rule: accept_loop.induct)
  case (1 fd)
  then show ?case by (simp add: accept_loop.simps)
next
  case (2 fd c rets)
  show ?case
  proof (cases "c < 0")
    case True
    with "2.prems" show ?thesis by (simp add: accept_loop.simps)
  next
    case False
    obtain t1 e rets' where el: "echo_loop c rets = (t1, e, rets')"
      by (cases "echo_loop c rets") auto
    show ?thesis
    proof (cases e)
      case Break
      obtain t2 r2 where al: "accept_loop fd rets' = (t2, r2)"
        by (cases "accept_loop fd rets'") auto
      with "2.prems" False el Break have "r2 = Some r"
        by (simp add: accept_loop.simps)
      with "2.IH" [OF False el [symmetric] refl Break] al show ?thesis by simp
    next
      case (Goto_cleanup ret)
      with "2.prems" False el have "ret = r" by (simp add: accept_loop.simps)
      with el Goto_cleanup echo_loop_cleanup_1 show ?thesis by blast
    next
      case Echo_blocked
      with "2.prems" False el show ?thesis by (simp add: accept_loop.simps)
    qed
  qed
qed

lemma serve_exit_1: "serve os fd = (tr, Exit ret) \<Longrightarrow> ret = 1"
  by (auto simp: serve_def split: prod.splits option.splits dest: accept_loop_ret_1)

text \<open>
  C3, amended. The socket of the listening session is closed exactly once when that
  session ends: a run of the server that has entered the accept loop and has
  returned from \<open>main\<close> has made exactly one \<open>close\<close> of the listening socket, as its
  last call, and has returned 1; a run that is still waiting in a call has not closed
  it, and a run that ends before the accept loop has made no such call.
\<close>

theorem listening_socket_closed_once_on_cleanup:
  assumes "server_main os argv = (tr, out)"
  shows "count_list tr (Sys (Close (listening_socket_ret os))) =
           (if out \<noteq> Blocked \<and> Sys (Accept (listening_socket_ret os)) \<in> set tr
            then 1 else 0)
         \<and> (out \<noteq> Blocked \<and> Sys (Accept (listening_socket_ret os)) \<in> set tr
              \<longrightarrow> last tr = Sys (Close (listening_socket_ret os)) \<and> out = Exit 1)"
proof (cases "length argv < 2")
  case True
  with assms show ?thesis by (auto simp: server_main_def Let_def)
next
  case args: False
  define v where "v = server_parse argv 1
      \<lparr>srv_hostname = Some ''localhost'', srv_port_number = - 1\<rparr>"
  show ?thesis
  proof (cases "srv_port_number v \<le> 0")
    case True
    with assms args show ?thesis by (auto simp: server_main_def Let_def v_def)
  next
    case port: False
    obtain t ret fd_out
      where st: "start_server os (srv_hostname v) (srv_port_number v) 5 = (t, ret, fd_out)"
      by (cases "start_server os (srv_hostname v) (srv_port_number v) 5") auto
    have nc: "Sys (Close (listening_socket_ret os)) \<notin> set t"
      and na: "Sys (Accept (listening_socket_ret os)) \<notin> set t"
      using start_server_no_close [of _ os "srv_hostname v" "srv_port_number v" 5]
        start_server_no_accept [of _ os "srv_hostname v" "srv_port_number v" 5] st
      by simp_all
    show ?thesis
    proof (cases "ret = 0")
      case False
      with assms args port st nc na show ?thesis
        by (auto simp: server_main_def Let_def v_def count_list_absent)
    next
      case True
      with st have fd: "fd_out = Some (listening_socket_ret os)"
        by (simp add: start_server_fd)
      obtain t' out' where sv: "serve os (listening_socket_ret os) = (t', out')"
        by (cases "serve os (listening_socket_ret os)") auto
      have tr: "tr = Out (Starting_server (srv_hostname v) (srv_port_number v)) # t @ t'"
        and out: "out = out'"
        using assms args port st True fd sv
        by (auto simp: server_main_def Let_def v_def)
      have acc: "Sys (Accept (listening_socket_ret os)) \<in> set t'"
        using serve_accept [of "listening_socket_ret os" os] sv by simp
      have t'ne: "t' \<noteq> []" using acc by auto
      show ?thesis
      proof (cases out')
        case (Exit r)
        with sv have "r = 1" by (simp add: serve_exit_1)
        with serve_close [OF sv] Exit acc nc t'ne show ?thesis
          by (simp add: tr out count_list_absent)
      next
        case Blocked
        with serve_close [OF sv] acc nc show ?thesis
          by (simp add: tr out count_list_absent)
      next
        case Undefined
        with serve_close [OF sv] show ?thesis by simp
      qed
    qed
  qed
qed

theorem listening_socket_closed_once_on_cleanup_witness:
  "server_main (os_example\<lparr>loop_rets := [4, 5, 5, - 1]\<rparr>) [''server'', ''9000''] =
     ([Out (Starting_server (Some ''localhost'') 9000), Sys Socket,
       Sys (Bind 3 \<lparr>sin_family = AF_INET, sin_addr = INADDR_ANY, sin_port = 9000\<rparr>),
       Sys (Listen 3 5), Sys (Accept 3), Out (Connected_to_client 4),
       Sys (Recv 4 Echo_buffer 512), Sys (Send 4 Echo_buffer 5),
       Sys (Recv 4 Echo_buffer 512), Err (Failed_to_receive (- 1)), Sys (Close 3)],
      Exit 1)
   \<and> count_list
       [Out (Starting_server (Some ''localhost'') 9000), Sys Socket,
       Sys (Bind 3 \<lparr>sin_family = AF_INET, sin_addr = INADDR_ANY, sin_port = 9000\<rparr>),
       Sys (Listen 3 5), Sys (Accept 3), Out (Connected_to_client 4),
       Sys (Recv 4 Echo_buffer 512), Sys (Send 4 Echo_buffer 5),
       Sys (Recv 4 Echo_buffer 512), Err (Failed_to_receive (- 1)), Sys (Close 3)]
       (Sys (Close 3)) = 1
   \<and> last
       [Out (Starting_server (Some ''localhost'') 9000), Sys Socket,
       Sys (Bind 3 \<lparr>sin_family = AF_INET, sin_addr = INADDR_ANY, sin_port = 9000\<rparr>),
       Sys (Listen 3 5), Sys (Accept 3), Out (Connected_to_client 4),
       Sys (Recv 4 Echo_buffer 512), Sys (Send 4 Echo_buffer 5),
       Sys (Recv 4 Echo_buffer 512), Err (Failed_to_receive (- 1)), Sys (Close 3)]
     = Sys (Close 3)"
proof -
  have run: "server_main (os_example\<lparr>loop_rets := [4, 5, 5, - 1]\<rparr>) [''server'', ''9000''] =
     ([Out (Starting_server (Some ''localhost'') 9000), Sys Socket,
       Sys (Bind 3 \<lparr>sin_family = AF_INET, sin_addr = INADDR_ANY, sin_port = 9000\<rparr>),
       Sys (Listen 3 5), Sys (Accept 3), Out (Connected_to_client 4),
       Sys (Recv 4 Echo_buffer 512), Sys (Send 4 Echo_buffer 5),
       Sys (Recv 4 Echo_buffer 512), Err (Failed_to_receive (- 1)), Sys (Close 3)],
      Exit 1)"
    by (simp add: server_main_def server_parse.simps argv_at_def atoi_def isspace_def
        isdigit_def start_server_def htons_def os_example_def serve_def accept_loop.simps
        stop_server_def echo_buffer_len_def size_t_of_int_def Let_def)
  have fd: "listening_socket_ret (os_example\<lparr>loop_rets := [4, 5, 5, - 1]\<rparr>) = 3"
    by (simp add: os_example_def)
  note w = listening_socket_closed_once_on_cleanup [OF run, unfolded fd]
  from w have "count_list
       [Out (Starting_server (Some ''localhost'') 9000), Sys Socket,
       Sys (Bind 3 \<lparr>sin_family = AF_INET, sin_addr = INADDR_ANY, sin_port = 9000\<rparr>),
       Sys (Listen 3 5), Sys (Accept 3), Out (Connected_to_client 4),
       Sys (Recv 4 Echo_buffer 512), Sys (Send 4 Echo_buffer 5),
       Sys (Recv 4 Echo_buffer 512), Err (Failed_to_receive (- 1)), Sys (Close 3)]
       (Sys (Close 3)) = 1"
    by simp
  moreover from w have "last
       [Out (Starting_server (Some ''localhost'') 9000), Sys Socket,
       Sys (Bind 3 \<lparr>sin_family = AF_INET, sin_addr = INADDR_ANY, sin_port = 9000\<rparr>),
       Sys (Listen 3 5), Sys (Accept 3), Out (Connected_to_client 4),
       Sys (Recv 4 Echo_buffer 512), Sys (Send 4 Echo_buffer 5),
       Sys (Recv 4 Echo_buffer 512), Err (Failed_to_receive (- 1)), Sys (Close 3)]
     = Sys (Close 3)"
    by simp
  ultimately show ?thesis using run by (intro conjI)
qed

text \<open>
  C3 as stated fails. The server accepts a client as socket 4, echoes once, reads 0
  and calls \<open>accept\<close> again, and accepts a second client: no \<open>close\<close> of socket 4 has
  been made. The client runs to its end with status 0 and makes no \<open>close\<close> of its
  socket 3.
\<close>

theorem sockets_of_connections_are_not_closed:
  "server_main (os_example\<lparr>loop_rets := [4, 5, 5, 0, 6]\<rparr>) [''server'', ''9000''] =
     ([Out (Starting_server (Some ''localhost'') 9000), Sys Socket,
       Sys (Bind 3 \<lparr>sin_family = AF_INET, sin_addr = INADDR_ANY, sin_port = 9000\<rparr>),
       Sys (Listen 3 5), Sys (Accept 3), Out (Connected_to_client 4),
       Sys (Recv 4 Echo_buffer 512), Sys (Send 4 Echo_buffer 5),
       Sys (Recv 4 Echo_buffer 512), Out Connection_closed,
       Sys (Accept 3), Out (Connected_to_client 6), Sys (Recv 6 Echo_buffer 512)],
      Blocked)
   \<and> count_list
       [Out (Starting_server (Some ''localhost'') 9000), Sys Socket,
       Sys (Bind 3 \<lparr>sin_family = AF_INET, sin_addr = INADDR_ANY, sin_port = 9000\<rparr>),
       Sys (Listen 3 5), Sys (Accept 3), Out (Connected_to_client 4),
       Sys (Recv 4 Echo_buffer 512), Sys (Send 4 Echo_buffer 5),
       Sys (Recv 4 Echo_buffer 512), Out Connection_closed,
       Sys (Accept 3), Out (Connected_to_client 6), Sys (Recv 6 Echo_buffer 512)]
       (Sys (Close 4)) = 0
   \<and> client_main client_os_example [''client'', ''9000''] =
     ([Sys Socket, Sys (Gethostbyname ''localhost''),
       Out (Connecting_to_server (Some ''localhost'') 9000),
       Sys (Connect 3 \<lparr>sin_family = AF_INET, sin_addr = 2130706433, sin_port = 9000\<rparr>),
       Out (Sending_message (Some ''hello world'')),
       Sys (Send 3 Addr_of_message 11), Out Receiving_response,
       Sys (Recv 3 Addr_of_rx_buffer 11), Out Percent_s, Out Closing_quote],
      Exit 0)
   \<and> count_list
       [Sys Socket, Sys (Gethostbyname ''localhost''),
       Out (Connecting_to_server (Some ''localhost'') 9000),
       Sys (Connect 3 \<lparr>sin_family = AF_INET, sin_addr = 2130706433, sin_port = 9000\<rparr>),
       Out (Sending_message (Some ''hello world'')),
       Sys (Send 3 Addr_of_message 11), Out Receiving_response,
       Sys (Recv 3 Addr_of_rx_buffer 11), Out Percent_s, Out Closing_quote]
       (Sys (Close 3)) = 0"
  by (simp add: server_main_def server_parse.simps argv_at_def atoi_def isspace_def
      isdigit_def start_server_def htons_def os_example_def serve_def accept_loop.simps
      stop_server_def echo_buffer_len_def size_t_of_int_def Let_def
      client_main_def client_parse.simps client_run_def client_os_example_def
      connect_trace_def message_len_of_def strlen_def int_of_size_t_def chars_request_def)

end
